theory Spec2Isabelle
  imports Main "HOL-Library.Word"
begin

section \<open>Runtime values: buffers and hex strings\<close>

text \<open>
  The sources keep every binary value as a hex string and turn it into bytes with Node's
  \<^verbatim>\<open>Buffer.from(s, 'hex')\<close>; \<^verbatim>\<open>buf.toString('hex')\<close> goes back. A buffer is a list of
  bytes.
\<close>

type_synonym byte = "8 word"
type_synonym Buffer = "byte list"

definition hexDigits :: string where
  "hexDigits = ''0123456789abcdef''"

text \<open>The value of one hex digit; Node accepts both cases when it decodes.\<close>

definition hexval :: "char \<Rightarrow> nat option" where
  "hexval c = map_of
     [(CHR ''0'', 0), (CHR ''1'', 1), (CHR ''2'', 2), (CHR ''3'', 3), (CHR ''4'', 4),
      (CHR ''5'', 5), (CHR ''6'', 6), (CHR ''7'', 7), (CHR ''8'', 8), (CHR ''9'', 9),
      (CHR ''a'', 10), (CHR ''b'', 11), (CHR ''c'', 12), (CHR ''d'', 13), (CHR ''e'', 14),
      (CHR ''f'', 15),
      (CHR ''A'', 10), (CHR ''B'', 11), (CHR ''C'', 12), (CHR ''D'', 13), (CHR ''E'', 14),
      (CHR ''F'', 15)] c"

text \<open>The digit that \<^verbatim>\<open>toString('hex')\<close> and \<^verbatim>\<open>toString(16)\<close> write for a value below 16.\<close>

definition hexchar :: "nat \<Rightarrow> char" where
  "hexchar n = hexDigits ! (n mod 16)"

text \<open>
  \<^verbatim>\<open>Buffer.from(s, 'hex')\<close>: two digits make one byte; decoding stops at the first pair
  that is not two hex digits, and a single trailing character is dropped.
\<close>

fun Buffer_from_hex :: "string \<Rightarrow> Buffer" where
  "Buffer_from_hex (a # b # rest) =
     (case (hexval a, hexval b) of
        (Some h, Some l) \<Rightarrow> word_of_nat (16 * h + l) # Buffer_from_hex rest
      | _ \<Rightarrow> [])"
| "Buffer_from_hex _ = []"

definition byteLength :: "Buffer \<Rightarrow> nat" where
  "byteLength b = length b"

text \<open>\<^verbatim>\<open>buf.toString('hex')\<close>: two lower-case digits for every byte.\<close>

fun Buffer_toString_hex :: "Buffer \<Rightarrow> string" where
  "Buffer_toString_hex [] = []"
| "Buffer_toString_hex (b # bs) =
     hexchar (unat b div 16) # hexchar (unat b mod 16) # Buffer_toString_hex bs"

text \<open>\<^verbatim>\<open>Buffer.alloc(n, fill)\<close>.\<close>

definition Buffer_alloc :: "nat \<Rightarrow> byte \<Rightarrow> Buffer" where
  "Buffer_alloc n fill = replicate n fill"

text \<open>\<^verbatim>\<open>s.padStart(n, '0')\<close> of JavaScript strings: a string already long enough is unchanged.\<close>

definition padStart :: "nat \<Rightarrow> char \<Rightarrow> string \<Rightarrow> string" where
  "padStart n c s = replicate (n - length s) c @ s"

text \<open>\<^verbatim>\<open>n.toString(16)\<close> of a non-negative BigInt: no leading zero, one digit for 0.\<close>

fun toString16 :: "nat \<Rightarrow> string" where
  "toString16 n = (if n < 16 then [hexchar n] else toString16 (n div 16) @ [hexchar (n mod 16)])"

declare toString16.simps [simp del]

text \<open>
  Modelled from the spec: \<^verbatim>\<open>bigIntToHexString\<close> of \<^verbatim>\<open>utils.ts\<close>, which is not among the
  sources. The spec has the fee rate and the nonce as big-endian unsigned 64-bit values of 8
  bytes and a length guard against "any upstream value that cannot fit the fixed width": the
  digits of the number, padded on the left with zeros to twice the byte width and never cut.
  The width is 8 bytes where the caller gives none.
\<close>

definition bigIntToHexString :: "nat \<Rightarrow> nat \<Rightarrow> string" where
  "bigIntToHexString integer lengthBytes = padStart (lengthBytes * 2) CHR ''0'' (toString16 integer)"

section \<open>Errors\<close>

text \<open>
  The sources throw plain \<^verbatim>\<open>Error\<close> objects told apart by their message. Each message
  has a constructor under the name the specification gives that failure:
  \<^item> \<^verbatim>\<open>'Invalid signature hash length'\<close> is \<open>EncodingLengthError\<close>;
  \<^item> \<^verbatim>\<open>'Invalid signature'\<close> is \<open>InvalidSignatureLength\<close>;
  \<^item> \<^verbatim>\<open>'Cannot sign origin after sponsor key'\<close> is \<open>OverlapError\<close>;
  \<^item> \<^verbatim>\<open>'Origin would have too many signatures'\<close> is \<open>OversignError\<close>.
  \<open>TypeError\<close> and \<open>SyntaxError\<close> are the errors of the JavaScript runtime (a property
  of \<^verbatim>\<open>undefined\<close>, a call of something that is not a function, a malformed BigInt
  literal). \<open>UnknownAddressHashMode\<close>, \<open>NotReadyError\<close> and \<open>Unimplemented\<close> are named
  by the specification; no statement of the sources throws them.
\<close>

datatype error =
    EncodingLengthError
  | InvalidSignatureLength
  | OverlapError
  | OversignError
  | TypeError
  | SyntaxError
  | UnknownAddressHashMode
  | NotReadyError
  | Unimplemented

section \<open>Constants\<close>

text \<open>
  Modelled from the spec: \<^verbatim>\<open>constants.ts\<close> is not among the sources. The sources use
  its enumerations as hex strings (they are appended to hex strings, written with
  \<^verbatim>\<open>appendHexString\<close>, and a decoded byte is cast to them with
  \<^verbatim>\<open>read(1).toString('hex') as AddressHashMode\<close>), so a member is a string of two hex
  digits. The spec gives the signature length (65 bytes), the one-byte width of every tag
  and the authorization tags 0x04 and 0x05; the address hash modes and key encodings are
  numbered from 0x00 in the order of their declaration. The theorems below use of these
  values only that each is one byte of lower-case hex and that the members of one
  enumeration differ.
\<close>

definition RECOVERABLE_ECDSA_SIG_LENGTH_BYTES :: nat where
  "RECOVERABLE_ECDSA_SIG_LENGTH_BYTES = 65"

definition Standard :: string where "Standard = ''04''"
definition Sponsored :: string where "Sponsored = ''05''"

definition SerializeP2PKH :: string where "SerializeP2PKH = ''00''"
definition SerializeP2SH :: string where "SerializeP2SH = ''01''"
definition SerializeP2WPKH :: string where "SerializeP2WPKH = ''02''"
definition SerializeP2WSH :: string where "SerializeP2WSH = ''03''"

definition Compressed :: string where "Compressed = ''00''"
definition Uncompressed :: string where "Uncompressed = ''01''"

section \<open>Helpers of utils.ts and types.ts\<close>

text \<open>
  Modelled from the spec: \<^verbatim>\<open>hexStringToBigInt\<close> of \<^verbatim>\<open>utils.ts\<close>, the inverse of
  \<^verbatim>\<open>bigIntToHexString\<close>: the unsigned number a string of hex digits writes, most
  significant digit first. As JavaScript's \<^verbatim>\<open>BigInt('0x' + s)\<close> does, it throws a
  \<open>SyntaxError\<close> on a string that has no digit or has a character that is no hex digit.
\<close>

fun hexnat :: "nat \<Rightarrow> string \<Rightarrow> nat option" where
  "hexnat acc [] = Some acc"
| "hexnat acc (c # cs) =
     (case hexval c of None \<Rightarrow> None | Some v \<Rightarrow> hexnat (16 * acc + v) cs)"

definition hexStringToBigInt :: "string \<Rightarrow> error + nat" where
  "hexStringToBigInt hex =
     (if hex = [] then Inl SyntaxError
      else case hexnat 0 hex of None \<Rightarrow> Inl SyntaxError | Some n \<Rightarrow> Inr n)"

text \<open>
  Modelled from the spec: \<^verbatim>\<open>BufferArray\<close> of \<^verbatim>\<open>utils.ts\<close>, the list of buffers a
  serializer collects: \<^verbatim>\<open>appendHexString\<close> adds the bytes of a hex string,
  \<^verbatim>\<open>push\<close> adds a buffer, \<^verbatim>\<open>concatBuffer\<close> joins them in order.
\<close>

type_synonym BufferArray = "Buffer list"

definition appendHexString :: "BufferArray \<Rightarrow> string \<Rightarrow> BufferArray" where
  "appendHexString bufferArray hexString = bufferArray @ [Buffer_from_hex hexString]"

definition push :: "BufferArray \<Rightarrow> Buffer \<Rightarrow> BufferArray" where
  "push bufferArray buffer = bufferArray @ [buffer]"

definition concatBuffer :: "BufferArray \<Rightarrow> Buffer" where
  "concatBuffer bufferArray = concat bufferArray"

text \<open>
  Modelled from the spec: \<^verbatim>\<open>BufferReader\<close> of \<^verbatim>\<open>utils.ts\<close>, a buffer and a read
  position; \<^verbatim>\<open>read(n)\<close> returns the next \<open>n\<close> bytes and moves the position by \<open>n\<close>
  ("strict fixed-width reads"). The theorems about decoding are stated for buffers that hold
  every byte that is read, so what a read past the end returns plays no part in them.
\<close>

record BufferReader =
  buffer :: Buffer
  index :: nat

definition BufferReader_new :: "Buffer \<Rightarrow> BufferReader" where
  "BufferReader_new b = \<lparr>buffer = b, index = 0\<rparr>"

definition BufferReader_read :: "nat \<Rightarrow> BufferReader \<Rightarrow> Buffer \<times> BufferReader" where
  "BufferReader_read n r = (take n (drop (index r) (buffer r)), r\<lparr>index := index r + n\<rparr>)"

text \<open>
  Modelled from the spec: \<^verbatim>\<open>Address\<close> of \<^verbatim>\<open>types.ts\<close>. The sources build it with
  \<^verbatim>\<open>Address.fromData(0, hash)\<close> and read its \<^verbatim>\<open>data\<close>, the hex string of the 20-byte
  hash of the signer's key(s).
\<close>

record Address =
  version :: nat
  data :: string

definition Address_fromData :: "nat \<Rightarrow> string \<Rightarrow> Address" where
  "Address_fromData v d = \<lparr>version = v, data = d\<rparr>"

section \<open>Signature values\<close>

text \<open>
  \<^verbatim>\<open>class MessageSignature\<close> (authorization.ts, lines 37-72) has one field,
  \<^verbatim>\<open>signature\<close>, a hex string that the constructor leaves \<^verbatim>\<open>undefined\<close> (\<open>None\<close>)
  when it gets no argument; \<^verbatim>\<open>toString()\<close> returns the field.
\<close>

datatype MessageSignature = MessageSignature (toString: "string option")

text \<open>JavaScript's truthiness of an optional string: \<^verbatim>\<open>undefined\<close> and \<^verbatim>\<open>''\<close> are falsy.\<close>

definition truthy :: "string option \<Rightarrow> bool" where
  "truthy v = (case v of None \<Rightarrow> False | Some s \<Rightarrow> s \<noteq> [])"

text \<open>The constructor, lines 40-49.\<close>

definition MessageSignature_new :: "string option \<Rightarrow> error + MessageSignature" where
  "MessageSignature_new signature =
     (if truthy signature
      then (let length = byteLength (Buffer_from_hex (the signature))
            in if length \<noteq> RECOVERABLE_ECDSA_SIG_LENGTH_BYTES
               then Inl InvalidSignatureLength
               else Inr (MessageSignature signature))
      else Inr (MessageSignature signature))"

text \<open>
  \<^verbatim>\<open>MessageSignature.empty()\<close>, lines 51-56: \<^verbatim>\<open>new this()\<close> without an argument (the
  branch of the constructor that cannot throw), then the field set to the hex string of 65
  zero bytes.
\<close>

definition MessageSignature_empty :: MessageSignature where
  "MessageSignature_empty =
     MessageSignature (Some (Buffer_toString_hex (Buffer_alloc RECOVERABLE_ECDSA_SIG_LENGTH_BYTES 0)))"

text \<open>
  \<^verbatim>\<open>serialize()\<close>, lines 62-66. \<^verbatim>\<open>Buffer.from(undefined, 'hex')\<close> throws a
  \<open>TypeError\<close>.
\<close>

definition MessageSignature_serialize :: "MessageSignature \<Rightarrow> error + Buffer" where
  "MessageSignature_serialize m =
     (case toString m of
        None \<Rightarrow> Inl TypeError
      | Some s \<Rightarrow> Inr (concatBuffer (appendHexString [] s)))"

text \<open>
  \<^verbatim>\<open>deserialize(bufferReader)\<close>, lines 68-70, as the sources call it: on the class
  (\<^verbatim>\<open>MessageSignature.deserialize(bufferReader)\<close>, line 220). Modelled from the spec:
  the call on the class is inherited from \<^verbatim>\<open>StacksMessage\<close> of \<^verbatim>\<open>message.ts\<close>, which
  is not among the sources; it makes a new object without arguments, lets it read, and
  returns it.
\<close>

definition MessageSignature_deserialize :: "BufferReader \<Rightarrow> MessageSignature \<times> BufferReader" where
  "MessageSignature_deserialize bufferReader =
     (let (b, r) = BufferReader_read RECOVERABLE_ECDSA_SIG_LENGTH_BYTES bufferReader
      in (MessageSignature (Some (Buffer_toString_hex b)), r))"

section \<open>External collaborators\<close>

text \<open>
  The hash primitive \<^verbatim>\<open>sha512_256\<close> (\<^verbatim>\<open>vendor/js-sha512\<close>), the key classes of
  \<^verbatim>\<open>keys.ts\<close> and the address derivation are outside the sources. A public key is known
  by what the sources ask of it (\<^verbatim>\<open>compressed()\<close>), a private key by its signing
  function and its public key. The rest are parameters of the model, collected in one
  record; the sources hand the hash primitive a JavaScript string and use what it returns as
  a hex string.
\<close>

record StacksPublicKey =
  compressed :: bool

record StacksPrivateKey =
  sign :: "string \<Rightarrow> MessageSignature"
  getPublicKey :: StacksPublicKey

record externals =
  sha512_256 :: "string \<Rightarrow> string"
  newStacksPublicKey :: "string \<Rightarrow> StacksPublicKey"
  Address_fromPublicKeys :: "nat \<Rightarrow> string \<Rightarrow> nat \<Rightarrow> StacksPublicKey list \<Rightarrow> Address"

section \<open>Spending conditions and the sighash chain\<close>

text \<open>
  \<^verbatim>\<open>SpendingCondition.makeSigHashPreSign\<close> (authorization.ts, lines 118-139). The
  arguments are hex strings and BigInts; the guard decodes the concatenated string and
  throws when its byte length is greater than \<open>hashLength\<close>. The hash primitive receives
  the concatenated hex string itself.
\<close>

definition makeSigHashPreSign :: "externals \<Rightarrow> string \<Rightarrow> string \<Rightarrow> nat \<Rightarrow> nat \<Rightarrow> error + string" where
  "makeSigHashPreSign X curSigHash authType feeRate nonce =
     (let hashLength = 32 + 1 + 8 + 8;
          sigHash = curSigHash @ authType @ bigIntToHexString feeRate 8 @ bigIntToHexString nonce 8
      in if byteLength (Buffer_from_hex sigHash) > hashLength
         then Inl EncodingLengthError
         else Inr (sha512_256 X sigHash))"

text \<open>
  \<^verbatim>\<open>SpendingCondition.makeSigHashPostSign\<close>, lines 141-160. String concatenation writes
  an \<^verbatim>\<open>undefined\<close> signature field as the text \<^verbatim>\<open>undefined\<close>.
\<close>

definition js_string :: "string option \<Rightarrow> string" where
  "js_string v = (case v of None \<Rightarrow> ''undefined'' | Some s \<Rightarrow> s)"

definition makeSigHashPostSign :: "externals \<Rightarrow> string \<Rightarrow> StacksPublicKey \<Rightarrow> MessageSignature \<Rightarrow> error + string" where
  "makeSigHashPostSign X curSigHash publicKey signature =
     (let hashLength = 32 + 1 + RECOVERABLE_ECDSA_SIG_LENGTH_BYTES;
          pubKeyEncoding = (if compressed publicKey then Compressed else Uncompressed);
          sigHash = curSigHash @ pubKeyEncoding @ js_string (toString signature)
      in if byteLength (Buffer_from_hex sigHash) > hashLength
         then Inl EncodingLengthError
         else Inr (sha512_256 X sigHash))"

text \<open>\<^verbatim>\<open>SpendingCondition.nextSignature\<close>, lines 162-181: one party signs.\<close>

definition nextSignature :: "externals \<Rightarrow> string \<Rightarrow> string \<Rightarrow> nat \<Rightarrow> nat \<Rightarrow> StacksPrivateKey \<Rightarrow> error + (MessageSignature \<times> string)" where
  "nextSignature X curSigHash authType feeRate nonce privateKey =
     (case makeSigHashPreSign X curSigHash authType feeRate nonce of
        Inl e \<Rightarrow> Inl e
      | Inr sigHashPreSign \<Rightarrow>
          (let signature = sign privateKey sigHashPreSign;
               publicKey = getPublicKey privateKey
           in case makeSigHashPostSign X sigHashPreSign publicKey signature of
                Inl e \<Rightarrow> Inl e
              | Inr nextSigHash \<Rightarrow> Inr (signature, nextSigHash)))"

text \<open>
  \<^verbatim>\<open>class SpendingCondition\<close>, lines 74-227, with its subclasses
  \<^verbatim>\<open>SingleSigSpendingCondition\<close> (lines 229-243) and \<^verbatim>\<open>MultiSigSpendingCondition\<close>
  (lines 245-247, an empty body). The field \<open>cls\<close> is the class the object was made by,
  which decides the \<^verbatim>\<open>numSignatures\<close> that runs. Every constructor argument is
  optional, so a field the constructor does not set is \<^verbatim>\<open>undefined\<close> (\<open>None\<close>). The
  values of \<open>addressHashMode\<close> and \<open>pubKeyEncoding\<close> are hex strings; decoding stores
  whatever byte it reads.
\<close>

datatype SpendingConditionClass = Base | SingleSig | MultiSig

record SpendingCondition =
  cls :: SpendingConditionClass
  addressHashMode :: "string option"
  signerAddress :: "Address option"
  nonce :: "nat option"
  feeRate :: "nat option"
  pubKeyEncoding :: "string option"
  signature :: MessageSignature
  signaturesRequired :: "nat option"

text \<open>The constructor of the base class, lines 83-106.\<close>

definition SpendingCondition_new :: "externals \<Rightarrow> string option \<Rightarrow> string option \<Rightarrow> nat option \<Rightarrow> nat option \<Rightarrow> SpendingCondition" where
  "SpendingCondition_new X addressHashMode' pubKey nonce' feeRate' =
     \<lparr>cls = Base,
      addressHashMode = addressHashMode',
      signerAddress =
        (if truthy addressHashMode' \<and> truthy pubKey
         then Some (Address_fromPublicKeys X 0 (the addressHashMode') 1 [newStacksPublicKey X (the pubKey)])
         else None),
      nonce = nonce',
      feeRate = feeRate',
      pubKeyEncoding =
        (if truthy pubKey
         then Some (if compressed (newStacksPublicKey X (the pubKey)) then Compressed else Uncompressed)
         else None),
      signature = MessageSignature_empty,
      signaturesRequired = None\<rparr>"

text \<open>The constructor of \<^verbatim>\<open>SingleSigSpendingCondition\<close>, lines 230-238.\<close>

definition SingleSigSpendingCondition_new :: "externals \<Rightarrow> string option \<Rightarrow> string option \<Rightarrow> nat option \<Rightarrow> nat option \<Rightarrow> SpendingCondition" where
  "SingleSigSpendingCondition_new X addressHashMode' pubKey nonce' feeRate' =
     (SpendingCondition_new X addressHashMode' pubKey nonce' feeRate')
       \<lparr>cls := SingleSig, signaturesRequired := Some 1\<rparr>"

text \<open>\<^verbatim>\<open>singleSig()\<close>, lines 108-116.\<close>

definition singleSig :: "SpendingCondition \<Rightarrow> bool" where
  "singleSig c =
     (if addressHashMode c = Some SerializeP2PKH \<or> addressHashMode c = Some SerializeP2WPKH
      then True else False)"

text \<open>
  \<^verbatim>\<open>numSignatures()\<close>: 0 in the base class (lines 183-185), which
  \<^verbatim>\<open>MultiSigSpendingCondition\<close> inherits; the comparison of the signature string with
  the empty one in \<^verbatim>\<open>SingleSigSpendingCondition\<close> (lines 240-242).
\<close>

definition numSignatures :: "SpendingCondition \<Rightarrow> nat" where
  "numSignatures c =
     (case cls c of
        SingleSig \<Rightarrow> (if toString (signature c) = toString MessageSignature_empty then 0 else 1)
      | _ \<Rightarrow> 0)"

text \<open>
  \<^verbatim>\<open>serialize()\<close>, lines 187-207. An \<^verbatim>\<open>undefined\<close> field that is written makes the
  runtime throw a \<open>TypeError\<close>. \<^verbatim>\<open>bigIntToHexString\<close> is called without a width here.
  The branch of the two script modes is a comment (\<^verbatim>\<open>// TODO\<close>): it writes nothing.
\<close>

definition SpendingCondition_serialize :: "SpendingCondition \<Rightarrow> error + Buffer" where
  "SpendingCondition_serialize c =
     (case addressHashMode c of None \<Rightarrow> Inl TypeError | Some mode \<Rightarrow>
      case signerAddress c of None \<Rightarrow> Inl TypeError | Some address \<Rightarrow>
      case nonce c of None \<Rightarrow> Inl TypeError | Some n \<Rightarrow>
      case feeRate c of None \<Rightarrow> Inl TypeError | Some f \<Rightarrow>
        (let bufferArray = appendHexString [] mode;
             bufferArray = appendHexString bufferArray (data address);
             bufferArray = appendHexString bufferArray (bigIntToHexString n 8);
             bufferArray = appendHexString bufferArray (bigIntToHexString f 8)
         in if mode = SerializeP2PKH \<or> mode = SerializeP2WPKH
            then (case pubKeyEncoding c of None \<Rightarrow> Inl TypeError | Some encoding \<Rightarrow>
                  case MessageSignature_serialize (signature c) of Inl e \<Rightarrow> Inl e | Inr sigBuffer \<Rightarrow>
                    Inr (concatBuffer (push (appendHexString bufferArray encoding) sigBuffer)))
            else if mode = SerializeP2SH \<or> mode = SerializeP2WSH
            then Inr (concatBuffer bufferArray)
            else Inr (concatBuffer bufferArray)))"

text \<open>
  \<^verbatim>\<open>deserialize(bufferReader)\<close>, lines 209-226, as \<^verbatim>\<open>Authorization.deserialize\<close> calls
  it: on the class \<^verbatim>\<open>SpendingCondition\<close>, which makes a new object of the base class
  without arguments and reads into it. The result is the object and the reader after the
  reads. The mode byte is compared only after the four fixed fields are read; a mode that
  is none of the four takes neither branch.
\<close>

definition SpendingCondition_deserialize :: "externals \<Rightarrow> BufferReader \<Rightarrow> error + (SpendingCondition \<times> BufferReader)" where
  "SpendingCondition_deserialize X bufferReader =
     (let this = SpendingCondition_new X None None None None;
          (b, r) = BufferReader_read 1 bufferReader;
          this = this\<lparr>addressHashMode := Some (Buffer_toString_hex b)\<rparr>;
          (b, r) = BufferReader_read 20 r;
          signerPubKeyHash = Buffer_toString_hex b;
          this = this\<lparr>signerAddress := Some (Address_fromData 0 signerPubKeyHash)\<rparr>;
          (b, r) = BufferReader_read 8 r
      in case hexStringToBigInt (Buffer_toString_hex b) of Inl e \<Rightarrow> Inl e | Inr n \<Rightarrow>
        (let this = this\<lparr>nonce := Some n\<rparr>;
             (b, r) = BufferReader_read 8 r
         in case hexStringToBigInt (Buffer_toString_hex b) of Inl e \<Rightarrow> Inl e | Inr f \<Rightarrow>
           (let this = this\<lparr>feeRate := Some f\<rparr>
            in if addressHashMode this = Some SerializeP2PKH \<or> addressHashMode this = Some SerializeP2WPKH
               then (let (b, r) = BufferReader_read 1 r;
                         this = this\<lparr>pubKeyEncoding := Some (Buffer_toString_hex b)\<rparr>;
                         (sig, r) = MessageSignature_deserialize r
                     in Inr (this\<lparr>signature := sig\<rparr>, r))
               else if addressHashMode this = Some SerializeP2SH \<or> addressHashMode this = Some SerializeP2WSH
               then Inr (this, r)
               else Inr (this, r))))"

section \<open>Authorizations\<close>

text \<open>\<^verbatim>\<open>class Authorization\<close>, lines 249-291, and its two subclasses, lines 293-309.\<close>

record Authorization =
  authType :: "string option"
  spendingCondition :: "SpendingCondition option"

definition Authorization_new :: "string option \<Rightarrow> SpendingCondition option \<Rightarrow> Authorization" where
  "Authorization_new authType' spendingConditions = \<lparr>authType = authType', spendingCondition = spendingConditions\<rparr>"

definition StandardAuthorization_new :: "SpendingCondition \<Rightarrow> Authorization" where
  "StandardAuthorization_new c = Authorization_new (Some Standard) (Some c)"

definition SponsoredAuthorization_new :: "SpendingCondition \<Rightarrow> Authorization" where
  "SponsoredAuthorization_new c = Authorization_new (Some Sponsored) (Some c)"

text \<open>
  \<^verbatim>\<open>serialize()\<close>, lines 263-277. The \<^verbatim>\<open>Sponsored\<close> case of the switch is a comment
  and a \<^verbatim>\<open>break\<close>; a tag that is neither of the two matches no case.
\<close>

definition Authorization_serialize :: "Authorization \<Rightarrow> error + Buffer" where
  "Authorization_serialize a =
     (case authType a of None \<Rightarrow> Inl TypeError | Some tag \<Rightarrow>
        (let bufferArray = appendHexString [] tag
         in if tag = Standard
            then (case spendingCondition a of None \<Rightarrow> Inl TypeError | Some c \<Rightarrow>
                  case SpendingCondition_serialize c of Inl e \<Rightarrow> Inl e | Inr b \<Rightarrow>
                    Inr (concatBuffer (push bufferArray b)))
            else if tag = Sponsored
            then Inr (concatBuffer bufferArray)
            else Inr (concatBuffer bufferArray)))"

text \<open>\<^verbatim>\<open>deserialize(bufferReader)\<close>, lines 279-290, on a new object without arguments.\<close>

definition Authorization_deserialize :: "externals \<Rightarrow> BufferReader \<Rightarrow> error + (Authorization \<times> BufferReader)" where
  "Authorization_deserialize X bufferReader =
     (let this = Authorization_new None None;
          (b, r) = BufferReader_read 1 bufferReader;
          this = this\<lparr>authType := Some (Buffer_toString_hex b)\<rparr>
      in if authType this = Some Standard
         then (case SpendingCondition_deserialize X r of Inl e \<Rightarrow> Inl e | Inr (c, r) \<Rightarrow>
                 Inr (this\<lparr>spendingCondition := Some c\<rparr>, r))
         else if authType this = Some Sponsored
         then Inr (this, r)
         else Inr (this, r))"

section \<open>The signing session\<close>

text \<open>
  Modelled from the spec: \<^verbatim>\<open>StacksTransaction\<close> of \<^verbatim>\<open>transaction.ts\<close>, of which the
  signer uses the field \<^verbatim>\<open>auth\<close> and the methods \<^verbatim>\<open>signBegin\<close> and
  \<^verbatim>\<open>signNextOrigin\<close>. \<^verbatim>\<open>signBegin\<close> returns the transaction's pre-authorization hash
  (\<open>initialSigHash\<close>, a value of the transaction here). \<^verbatim>\<open>signNextOrigin\<close> is the
  spec's step on the origin condition: it calls \<^verbatim>\<open>nextSignature\<close> with the given
  sighash and the condition's own fee rate and nonce, stores the signature in the
  condition's slot and returns the next sighash.
\<close>

record StacksTransaction =
  auth :: Authorization
  initialSigHash :: string

definition signBegin :: "StacksTransaction \<Rightarrow> string" where
  "signBegin tx = initialSigHash tx"

definition signNextOrigin :: "externals \<Rightarrow> StacksTransaction \<Rightarrow> string \<Rightarrow> StacksPrivateKey \<Rightarrow> error + (StacksTransaction \<times> string)" where
  "signNextOrigin X tx sigHash privateKey =
     (case spendingCondition (auth tx) of None \<Rightarrow> Inl TypeError | Some c \<Rightarrow>
      case authType (auth tx) of None \<Rightarrow> Inl TypeError | Some tag \<Rightarrow>
      case feeRate c of None \<Rightarrow> Inl TypeError | Some f \<Rightarrow>
      case nonce c of None \<Rightarrow> Inl TypeError | Some n \<Rightarrow>
      case nextSignature X sigHash tag f n privateKey of
        Inl e \<Rightarrow> Inl e
      | Inr (nextSig, nextSigHash) \<Rightarrow>
          Inr (tx\<lparr>auth := (auth tx)\<lparr>spendingCondition := Some (c\<lparr>signature := nextSig\<rparr>)\<rparr>\<rparr>, nextSigHash))"

text \<open>\<^verbatim>\<open>class TransactionSigner\<close>, signer.ts, lines 13-43: the whole class.\<close>

record TransactionSigner =
  transaction :: StacksTransaction
  sigHash :: string
  originDone :: bool
  checkOversign :: bool
  checkOverlap :: bool

definition TransactionSigner_new :: "StacksTransaction \<Rightarrow> TransactionSigner" where
  "TransactionSigner_new transaction' =
     \<lparr>transaction = transaction',
      sigHash = signBegin transaction',
      originDone = False,
      checkOversign = True,
      checkOverlap = True\<rparr>"

text \<open>
  JavaScript's \<^verbatim>\<open>n >= required\<close> where \<open>required\<close> may be \<^verbatim>\<open>undefined\<close>: a comparison
  with \<^verbatim>\<open>undefined\<close> is false.
\<close>

definition js_ge :: "nat \<Rightarrow> nat option \<Rightarrow> bool" where
  "js_ge n required = (case required of None \<Rightarrow> False | Some r \<Rightarrow> n \<ge> r)"

text \<open>
  \<^verbatim>\<open>signOrigin(privateKey)\<close>, lines 30-42. The result is the signer after the call, or
  the error thrown; the two guards run in the order of the source, before the chain step.
\<close>

definition signOrigin :: "externals \<Rightarrow> StacksPrivateKey \<Rightarrow> TransactionSigner \<Rightarrow> error + TransactionSigner" where
  "signOrigin X privateKey this =
     (if checkOverlap this \<and> originDone this then Inl OverlapError
      else case (if checkOversign this
                 then (case spendingCondition (auth (transaction this)) of
                         None \<Rightarrow> Inl TypeError
                       | Some c \<Rightarrow> Inr (js_ge (numSignatures c) (signaturesRequired c)))
                 else Inr False) of
             Inl e \<Rightarrow> Inl e
           | Inr True \<Rightarrow> Inl OversignError
           | Inr False \<Rightarrow>
               (case signNextOrigin X (transaction this) (sigHash this) privateKey of
                  Inl e \<Rightarrow> Inl e
                | Inr (transaction', nextSighash) \<Rightarrow>
                    Inr (this\<lparr>transaction := transaction', sigHash := nextSighash\<rparr>)))"

text \<open>
  The methods of the class, by name, and a call \<^verbatim>\<open>signer.name(privateKey)\<close>: the class
  declares \<^verbatim>\<open>signOrigin\<close> and nothing else, and a call of a name that it does not
  declare is a call of \<^verbatim>\<open>undefined\<close>, which throws a \<open>TypeError\<close> before anything
  runs. (What every object inherits from \<^verbatim>\<open>Object\<close> is no signing operation and is left
  out.)
\<close>

definition TransactionSigner_method :: "externals \<Rightarrow> string \<Rightarrow> (StacksPrivateKey \<Rightarrow> TransactionSigner \<Rightarrow> error + TransactionSigner) option" where
  "TransactionSigner_method X name = (if name = ''signOrigin'' then Some (signOrigin X) else None)"

definition call_method :: "externals \<Rightarrow> string \<Rightarrow> StacksPrivateKey \<Rightarrow> TransactionSigner \<Rightarrow> error + TransactionSigner" where
  "call_method X name privateKey this =
     (case TransactionSigner_method X name of
        None \<Rightarrow> Inl TypeError
      | Some m \<Rightarrow> m privateKey this)"

text \<open>
  The signers a program can reach: the constructor's, and what a successful method call
  leaves (a call that throws changes nothing).
\<close>

inductive reachable :: "externals \<Rightarrow> TransactionSigner \<Rightarrow> bool" for X where
  constructed: "reachable X (TransactionSigner_new tx)"
| called: "reachable X s \<Longrightarrow> call_method X name privateKey s = Inr s' \<Longrightarrow> reachable X s'"

section \<open>Vocabulary of the statements\<close>

text \<open>A string of hex digits of either case, and one of the lower-case digits that the runtime writes.\<close>

definition isHex :: "string \<Rightarrow> bool" where
  "isHex s = (\<forall>c \<in> set s. hexval c \<noteq> None)"

definition lowerHex :: "string \<Rightarrow> bool" where
  "lowerHex s = (\<forall>c \<in> set s. c \<in> set hexDigits)"

text \<open>
  The specification's words for the two numbers of the pre-sign material: an unsigned
  64-bit value in big-endian order, byte \<open>i\<close> of 8 being \<open>n div 256 ^ (7 - i) mod 256\<close>.
\<close>

definition u64_be :: "nat \<Rightarrow> Buffer" where
  "u64_be n = map (\<lambda>i. word_of_nat (n div 256 ^ (7 - i))) [0..<8]"

text \<open>The digits and the bytes of a number at a fixed width, least significant last.\<close>

fun hex_fixed :: "nat \<Rightarrow> nat \<Rightarrow> string" where
  "hex_fixed 0 n = []"
| "hex_fixed (Suc k) n = hex_fixed k (n div 16) @ [hexchar (n mod 16)]"

fun be_bytes :: "nat \<Rightarrow> nat \<Rightarrow> Buffer" where
  "be_bytes 0 n = []"
| "be_bytes (Suc k) n = be_bytes k (n div 256) @ [word_of_nat n]"

text \<open>
  Stand-ins for the external collaborators, for the concrete instances below: a hash
  primitive that returns the 32 bytes \<open>aa \<dots> aa\<close> whatever it is given, compressed public
  keys, the zero address, and a key whose signature is the byte 01 followed by 64 zero
  bytes.
\<close>

definition zeros :: "nat \<Rightarrow> string" where
  "zeros n = replicate n CHR ''0''"

definition hash0 :: string where
  "hash0 = replicate 64 CHR ''a''"

definition X0 :: externals where
  "X0 = \<lparr>sha512_256 = (\<lambda>s. hash0),
         newStacksPublicKey = (\<lambda>s. \<lparr>compressed = True\<rparr>),
         Address_fromPublicKeys = (\<lambda>v m t ks. \<lparr>version = v, data = zeros 40\<rparr>)\<rparr>"

definition key0 :: StacksPrivateKey where
  "key0 = \<lparr>sign = (\<lambda>h. MessageSignature (Some (''01'' @ zeros 128))),
           getPublicKey = \<lparr>compressed = True\<rparr>\<rparr>"

text \<open>
  A second stand-in for the collaborators, whose hash primitive returns its argument: it
  tells any two arguments apart, as a hash function is meant to.
\<close>

definition Xid :: externals where
  "Xid = \<lparr>sha512_256 = (\<lambda>s. s),
          newStacksPublicKey = (\<lambda>s. \<lparr>compressed = True\<rparr>),
          Address_fromPublicKeys = (\<lambda>v m t ks. \<lparr>version = v, data = zeros 40\<rparr>)\<rparr>"

text \<open>
  Concrete values: a single-signature condition for the zero key (nonce 0, fee rate 180),
  the same condition with the signature of \<open>key0\<close> in its slot, a condition of a script
  mode with a signature and a key encoding set, transactions that carry them, the signer
  that one \<open>signOrigin\<close> with \<open>key0\<close> makes of the new signer of \<open>tx0\<close>, and a buffer whose
  first byte is no address hash mode.
\<close>

definition condition0 :: SpendingCondition where
  "condition0 = SingleSigSpendingCondition_new X0 (Some SerializeP2PKH) (Some (''02'' @ zeros 64)) (Some 0) (Some 180)"

definition signed_condition0 :: SpendingCondition where
  "signed_condition0 = condition0\<lparr>signature := MessageSignature (Some (''01'' @ zeros 128))\<rparr>"

definition script_condition0 :: SpendingCondition where
  "script_condition0 =
     \<lparr>cls = MultiSig, addressHashMode = Some SerializeP2SH,
      signerAddress = Some \<lparr>version = 0, data = zeros 40\<rparr>,
      nonce = Some 0, feeRate = Some 180,
      pubKeyEncoding = Some Compressed,
      signature = MessageSignature (Some (''01'' @ zeros 128)),
      signaturesRequired = Some 2\<rparr>"

definition tx0 :: StacksTransaction where
  "tx0 = \<lparr>auth = StandardAuthorization_new condition0, initialSigHash = zeros 64\<rparr>"

definition signed_tx0 :: StacksTransaction where
  "signed_tx0 = \<lparr>auth = StandardAuthorization_new signed_condition0, initialSigHash = zeros 64\<rparr>"

definition signed_signer0 :: TransactionSigner where
  "signed_signer0 =
     \<lparr>transaction = signed_tx0, sigHash = hash0,
      originDone = False, checkOversign = True, checkOverlap = True\<rparr>"

definition sponsored_tx0 :: StacksTransaction where
  "sponsored_tx0 = \<lparr>auth = SponsoredAuthorization_new condition0, initialSigHash = zeros 64\<rparr>"

definition unknown_mode_buffer :: Buffer where
  "unknown_mode_buffer = 255 # replicate 36 0"

section \<open>Hex strings and buffers\<close>

lemma lt16_cases: "n < (16::nat) \<Longrightarrow> n \<in> {0,1,2,3,4,5,6,7,8,9,10,11,12,13,14,15}"
  by simp arith

lemma hexval_hexchar_num:
  "hexval (hexchar 0) = Some 0" "hexval (hexchar 1) = Some 1" "hexval (hexchar 2) = Some 2"
  "hexval (hexchar 3) = Some 3" "hexval (hexchar 4) = Some 4" "hexval (hexchar 5) = Some 5"
  "hexval (hexchar 6) = Some 6" "hexval (hexchar 7) = Some 7" "hexval (hexchar 8) = Some 8"
  "hexval (hexchar 9) = Some 9" "hexval (hexchar 10) = Some 10" "hexval (hexchar 11) = Some 11"
  "hexval (hexchar 12) = Some 12" "hexval (hexchar 13) = Some 13" "hexval (hexchar 14) = Some 14"
  "hexval (hexchar 15) = Some 15"
  by (simp_all add: hexval_def hexchar_def hexDigits_def)

lemma hexval_hexchar: "n < 16 \<Longrightarrow> hexval (hexchar n) = Some n"
  using hexval_hexchar_num by (drule_tac lt16_cases) (simp, elim disjE, simp_all)

lemma hexval_lt16: "hexval c = Some v \<Longrightarrow> v < 16"
  by (auto simp: hexval_def split: if_splits)

lemma hexchar_hexval: "c \<in> set hexDigits \<Longrightarrow> \<exists>v. hexval c = Some v \<and> hexchar v = c"
  by (auto simp: hexval_def hexchar_def hexDigits_def)

lemma hexchar_in_hexDigits: "hexchar n \<in> set hexDigits"
proof -
  have "n mod 16 < 16" by simp
  then show ?thesis unfolding hexchar_def hexDigits_def
    by (drule_tac lt16_cases) (simp, elim disjE, simp_all)
qed

lemma hexchar_cong: "m mod 16 = n mod 16 \<Longrightarrow> hexchar m = hexchar n"
  by (simp add: hexchar_def)

lemma lowerHex_isHex: "lowerHex s \<Longrightarrow> isHex s"
  unfolding lowerHex_def isHex_def using hexchar_hexval by fastforce

lemma lowerHex_append [simp]: "lowerHex (xs @ ys) = (lowerHex xs \<and> lowerHex ys)"
  by (auto simp: lowerHex_def)

lemma isHex_append [simp]: "isHex (xs @ ys) = (isHex xs \<and> isHex ys)"
  by (auto simp: isHex_def)

lemma lowerHex_zeros: "lowerHex (replicate k CHR ''0'')"
  by (simp add: lowerHex_def hexDigits_def)

lemma unat_byte: "n < 256 \<Longrightarrow> unat (word_of_nat n :: byte) = n"
  by (simp add: unat_of_nat)

lemma byte_of_nibbles:
  assumes "h < 16" "l < 16"
  shows "unat (word_of_nat (16 * h + l) :: byte) div 16 = h"
    and "unat (word_of_nat (16 * h + l) :: byte) mod 16 = l"
proof -
  have "16 * h + l < 256" using assms by simp
  then have u: "unat (word_of_nat (16 * h + l) :: byte) = 16 * h + l"
    by (rule unat_byte)
  show "unat (word_of_nat (16 * h + l) :: byte) div 16 = h" unfolding u using assms by simp
  show "unat (word_of_nat (16 * h + l) :: byte) mod 16 = l" unfolding u using assms by simp
qed

text \<open>Decoding what \<^verbatim>\<open>toString('hex')\<close> wrote gives the bytes back.\<close>

lemma Buffer_from_toString_hex: "Buffer_from_hex (Buffer_toString_hex bs) = bs"
proof (induction bs)
  case Nil
  show ?case by simp
next
  case (Cons b bs)
  have "unat b < 256" using unsigned_less [of b] by simp
  then have h: "unat b div 16 < 16" by simp
  have l: "unat b mod 16 < 16" by simp
  show ?case using Cons
    by (simp add: hexval_hexchar [OF h] hexval_hexchar [OF l])
qed

text \<open>Writing the bytes of a lower-case hex string of even length gives the string back.\<close>

lemma Buffer_toString_from_hex:
  "lowerHex s \<Longrightarrow> even (length s) \<Longrightarrow> Buffer_toString_hex (Buffer_from_hex s) = s"
proof (induction s rule: Buffer_from_hex.induct)
  case (1 a b rest)
  from "1.prems" have la: "a \<in> set hexDigits" and lb: "b \<in> set hexDigits"
    and lr: "lowerHex rest" and ev: "even (length rest)"
    by (auto simp: lowerHex_def)
  from hexchar_hexval [OF la] obtain h where h: "hexval a = Some h" "hexchar h = a" by blast
  from hexchar_hexval [OF lb] obtain l where l: "hexval b = Some l" "hexchar l = b" by blast
  have hl: "h < 16" "l < 16" using h l hexval_lt16 by blast+
  show ?case using "1.IH" [OF _ _ _ lr ev] h l byte_of_nibbles [OF hl]
    by simp
qed (simp_all)

lemma Buffer_from_hex_append:
  "isHex xs \<Longrightarrow> even (length xs) \<Longrightarrow> Buffer_from_hex (xs @ ys) = Buffer_from_hex xs @ Buffer_from_hex ys"
proof (induction xs rule: Buffer_from_hex.induct)
  case (1 a b rest)
  then show ?case by (auto simp: isHex_def)
qed (simp_all)

lemma length_Buffer_from_hex:
  "isHex s \<Longrightarrow> length (Buffer_from_hex s) = length s div 2"
proof (induction s rule: Buffer_from_hex.induct)
  case (1 a b rest)
  then show ?case by (auto simp: isHex_def)
qed (simp_all)

lemma length_Buffer_from_hex_le: "length (Buffer_from_hex s) \<le> length s div 2"
proof (induction s rule: Buffer_from_hex.induct)
  case (1 a b rest)
  then show ?case by (auto split: option.splits)
qed (simp_all)

lemma length_Buffer_toString_hex: "length (Buffer_toString_hex bs) = 2 * length bs"
  by (induction bs) simp_all

lemma lowerHex_Buffer_toString_hex: "lowerHex (Buffer_toString_hex bs)"
  by (induction bs) (simp_all add: lowerHex_def hexchar_in_hexDigits)

lemma Buffer_toString_hex_append:
  "Buffer_toString_hex (xs @ ys) = Buffer_toString_hex xs @ Buffer_toString_hex ys"
  by (induction xs) simp_all

section \<open>Numbers at a fixed width\<close>

lemma lowerHex_toString16: "lowerHex (toString16 n)"
proof (induction n rule: toString16.induct)
  case (1 n)
  show ?case
  proof (cases "n < 16")
    case True
    then show ?thesis by (simp add: toString16.simps [of n] lowerHex_def hexchar_in_hexDigits)
  next
    case False
    with 1 show ?thesis
      by (simp add: toString16.simps [of n] lowerHex_def hexchar_in_hexDigits)
  qed
qed

lemma lowerHex_bigIntToHexString: "lowerHex (bigIntToHexString n k)"
  by (simp add: bigIntToHexString_def padStart_def lowerHex_toString16 lowerHex_zeros)

lemma hex_fixed_0: "hex_fixed k 0 = replicate k CHR ''0''"
  by (induction k) (simp_all add: hexchar_def hexDigits_def replicate_append_same)

lemma length_hex_fixed [simp]: "length (hex_fixed k n) = k"
  by (induction k arbitrary: n) simp_all

text \<open>Padding the digits of a number that fits is writing it at the fixed width.\<close>

lemma padStart_toString16:
  "n < 16 ^ k \<Longrightarrow> 0 < k \<Longrightarrow> padStart k CHR ''0'' (toString16 n) = hex_fixed k n"
proof (induction k arbitrary: n)
  case 0
  then show ?case by simp
next
  case (Suc k)
  show ?case
  proof (cases "n < 16")
    case True
    then show ?thesis
      by (simp add: toString16.simps [of n] padStart_def hex_fixed_0)
  next
    case False
    then have k: "0 < k" using Suc.prems by (cases k) auto
    have d: "n div 16 < 16 ^ k" using Suc.prems by (simp add: less_mult_imp_div_less mult.commute)
    have ih: "padStart k CHR ''0'' (toString16 (n div 16)) = hex_fixed k (n div 16)"
      by (rule Suc.IH [OF d k])
    show ?thesis using False ih
      by (simp add: toString16.simps [of n] padStart_def)
  qed
qed

lemma bigIntToHexString_fixed:
  "n < 2 ^ 64 \<Longrightarrow> bigIntToHexString n 8 = hex_fixed 16 n"
proof -
  assume "n < 2 ^ 64"
  then have "n < 16 ^ 16" by simp
  then show ?thesis unfolding bigIntToHexString_def
    using padStart_toString16 [of n 16] by simp
qed

lemma length_bigIntToHexString: "n < 2 ^ 64 \<Longrightarrow> length (bigIntToHexString n 8) = 16"
  by (simp add: bigIntToHexString_fixed)

lemma Buffer_toString_hex_byte:
  "Buffer_toString_hex [word_of_nat n :: byte] = [hexchar (n div 16 mod 16), hexchar (n mod 16)]"
proof -
  have u: "unat (word_of_nat n :: byte) = n mod 256" by (simp add: unat_of_nat)
  have m: "n mod 256 = 16 * (n div 16 mod 16) + n mod 16"
    using mod_mult2_eq [of n 16 16] by simp
  have a: "hexchar (n mod 256 div 16) = hexchar (n div 16 mod 16)"
    unfolding m by simp
  have b: "hexchar (n mod 256 mod 16) = hexchar (n mod 16)"
    unfolding m by simp
  show ?thesis by (simp only: Buffer_toString_hex.simps u a b)
qed

lemma hex_fixed_Suc_Suc:
  "hex_fixed (Suc (Suc k)) n = hex_fixed k (n div 256) @ [hexchar (n div 16 mod 16), hexchar (n mod 16)]"
proof -
  have c: "n div 16 div 16 = n div 256" by (simp add: div_mult2_eq)
  show ?thesis by (simp only: hex_fixed.simps c append_assoc append_Cons append_Nil)
qed

lemma Buffer_toString_hex_be_bytes:
  "Buffer_toString_hex (be_bytes k n) = hex_fixed (2 * k) n"
proof (induction k arbitrary: n)
  case 0
  show ?case by simp
next
  case (Suc k)
  have "Buffer_toString_hex (be_bytes (Suc k) n)
      = Buffer_toString_hex (be_bytes k (n div 256)) @ Buffer_toString_hex [word_of_nat n]"
    by (simp only: be_bytes.simps Buffer_toString_hex_append)
  also have "\<dots> = hex_fixed (2 * k) (n div 256) @ [hexchar (n div 16 mod 16), hexchar (n mod 16)]"
    by (simp only: Suc.IH Buffer_toString_hex_byte)
  also have "\<dots> = hex_fixed (Suc (Suc (2 * k))) n"
    by (simp only: hex_fixed_Suc_Suc)
  also have "Suc (Suc (2 * k)) = 2 * Suc k" by simp
  finally show ?case .
qed

lemma be_bytes_map:
  "be_bytes k n = map (\<lambda>i. word_of_nat (n div 256 ^ (k - 1 - i))) [0..<k]"
proof (induction k arbitrary: n)
  case 0
  show ?case by simp
next
  case (Suc k)
  have "map (\<lambda>i. word_of_nat (n div 256 div 256 ^ (k - 1 - i)) :: byte) [0..<k]
      = map (\<lambda>i. word_of_nat (n div 256 ^ (Suc k - 1 - i))) [0..<k]"
  proof (rule map_cong [OF refl])
    fix i assume "i \<in> set [0..<k]"
    then have "Suc (k - 1 - i) = k - i" by auto
    then have "(256::nat) ^ (k - i) = 256 * 256 ^ (k - 1 - i)"
      by (metis power_Suc)
    then show "(word_of_nat (n div 256 div 256 ^ (k - 1 - i)) :: byte)
             = word_of_nat (n div 256 ^ (Suc k - 1 - i))"
      by (simp add: div_mult2_eq)
  qed
  then show ?case by (simp add: Suc.IH)
qed

lemma u64_be_be_bytes: "u64_be n = be_bytes 8 n"
  unfolding be_bytes_map u64_be_def by simp

lemma length_u64_be [simp]: "length (u64_be n) = 8"
  by (simp add: u64_be_def)

text \<open>The bytes of the padded hex string of a 64-bit number are its big-endian bytes.\<close>

lemma Buffer_from_hex_bigInt:
  "n < 2 ^ 64 \<Longrightarrow> Buffer_from_hex (bigIntToHexString n 8) = u64_be n"
proof -
  assume n: "n < 2 ^ 64"
  have "Buffer_toString_hex (be_bytes 8 n) = hex_fixed (2 * 8) n"
    by (rule Buffer_toString_hex_be_bytes)
  then have "Buffer_toString_hex (u64_be n) = bigIntToHexString n 8"
    by (simp only: bigIntToHexString_fixed [OF n] u64_be_be_bytes) simp
  then show ?thesis
    using Buffer_from_toString_hex [of "u64_be n"] by simp
qed

section \<open>The pre-sign hash\<close>

text \<open>
  What the call does on well-formed arguments (a 32-byte sighash and a one-byte
  authorization type as hex strings, fee rate and nonce below \<open>2 ^ 64\<close>): it does not
  throw, and it hands the hash primitive the concatenated hex text. Decoded, as the length
  guard decodes it, that text is 49 bytes: the 32 bytes of the sighash, the authorization
  byte, the fee rate as 8 big-endian bytes and the nonce as 8 big-endian bytes.
\<close>

lemma makeSigHashPreSign_material:
  assumes "isHex curSigHash" and "length curSigHash = 64"
    and "isHex tag" and "length tag = 2"
    and "fee < 2 ^ 64" and "nce < 2 ^ 64"
  shows "makeSigHashPreSign X curSigHash tag fee nce
           = Inr (sha512_256 X (curSigHash @ tag @ bigIntToHexString fee 8 @ bigIntToHexString nce 8))
       \<and> Buffer_from_hex (curSigHash @ tag @ bigIntToHexString fee 8 @ bigIntToHexString nce 8)
           = Buffer_from_hex curSigHash @ Buffer_from_hex tag @ u64_be fee @ u64_be nce
       \<and> byteLength (Buffer_from_hex curSigHash) = 32
       \<and> byteLength (Buffer_from_hex tag) = 1
       \<and> byteLength (Buffer_from_hex (curSigHash @ tag @ bigIntToHexString fee 8 @ bigIntToHexString nce 8)) = 49"
proof -
  let ?f = "bigIntToHexString fee 8" and ?n = "bigIntToHexString nce 8"
  have f: "isHex ?f" "even (length ?f)"
    using assms(5) by (simp_all add: lowerHex_isHex lowerHex_bigIntToHexString length_bigIntToHexString)
  have d: "Buffer_from_hex (curSigHash @ tag @ ?f @ ?n)
          = Buffer_from_hex curSigHash @ Buffer_from_hex tag @ u64_be fee @ u64_be nce"
    using assms(1-6) f
    by (simp add: Buffer_from_hex_append Buffer_from_hex_bigInt)
  have c: "byteLength (Buffer_from_hex curSigHash) = 32" "byteLength (Buffer_from_hex tag) = 1"
    using assms(1-4) by (simp_all add: byteLength_def length_Buffer_from_hex)
  have l: "byteLength (Buffer_from_hex (curSigHash @ tag @ ?f @ ?n)) = 49"
    unfolding d using c by (simp add: byteLength_def)
  have r: "makeSigHashPreSign X curSigHash tag fee nce = Inr (sha512_256 X (curSigHash @ tag @ ?f @ ?n))"
    using l by (simp add: makeSigHashPreSign_def Let_def)
  show ?thesis using d c l r by simp
qed

text \<open>
  C1. The claim: the call returns the output of the hash primitive applied to exactly the
  49-byte concatenation of sighash, authorization type, fee rate and nonce, so that the
  result is a function of those 49 bytes. The source decodes the material to bytes for
  the length guard only (line 134) and hands the primitive the hex text itself (line 138).
  The sighashes \<open>AA \<dots> AA\<close> and \<open>aa \<dots> aa\<close> are the same 32 bytes, and with the
  authorization type \<open>Standard\<close>, fee rate 180 and nonce 0 both materials decode to the
  same 49 bytes; the primitive receives two different texts, and a primitive that returns
  its argument (\<open>Xid\<close>) shows it: the two results differ.
\<close>

theorem makeSigHashPreSign_hashes_hex_text:
  "Buffer_from_hex (replicate 64 CHR ''A'' @ Standard @ bigIntToHexString 180 8 @ bigIntToHexString 0 8)
     = Buffer_from_hex (replicate 64 CHR ''a'' @ Standard @ bigIntToHexString 180 8 @ bigIntToHexString 0 8)
   \<and> byteLength (Buffer_from_hex (replicate 64 CHR ''A'' @ Standard @ bigIntToHexString 180 8 @ bigIntToHexString 0 8)) = 49
   \<and> makeSigHashPreSign Xid (replicate 64 CHR ''A'') Standard 180 0
       = Inr (replicate 64 CHR ''A'' @ ''04'' @ ''00000000000000b4'' @ ''0000000000000000'')
   \<and> makeSigHashPreSign Xid (replicate 64 CHR ''a'') Standard 180 0
       = Inr (replicate 64 CHR ''a'' @ ''04'' @ ''00000000000000b4'' @ ''0000000000000000'')
   \<and> makeSigHashPreSign Xid (replicate 64 CHR ''A'') Standard 180 0
       \<noteq> makeSigHashPreSign Xid (replicate 64 CHR ''a'') Standard 180 0"
  by code_simp

text \<open>
  C2. The claim: the call fails if and only if the material is not exactly 49 bytes, and in
  particular it fails on shorter material. The source computes the expected length
  (\<open>hashLength = 32 + 1 + 8 + 8\<close>) and throws \<^verbatim>\<open>'Invalid signature hash length'\<close>
  only when the decoded material is longer. At a current sighash of 31 bytes, with the
  authorization type \<open>Standard\<close>, fee rate 180 and nonce 0, the material is 48 bytes and
  the call returns the hash of the short material.
\<close>

theorem makeSigHashPreSign_hashes_short_material:
  "byteLength (Buffer_from_hex (zeros 62 @ Standard @ bigIntToHexString 180 8 @ bigIntToHexString 0 8)) = 48
   \<and> makeSigHashPreSign X (zeros 62) Standard 180 0
       = Inr (sha512_256 X (zeros 62 @ Standard @ bigIntToHexString 180 8 @ bigIntToHexString 0 8))
   \<and> makeSigHashPreSign X (zeros 62) Standard 180 0 \<noteq> Inl EncodingLengthError"
proof -
  have l: "byteLength (Buffer_from_hex (zeros 62 @ Standard @ bigIntToHexString 180 8 @ bigIntToHexString 0 8)) = 48"
    by code_simp
  then show ?thesis by (simp add: makeSigHashPreSign_def Let_def)
qed

text \<open>What the guard of the source does decide: the call throws exactly on longer material.\<close>

lemma makeSigHashPreSign_throws_iff:
  "makeSigHashPreSign X cur tag fee nce = Inl e \<longleftrightarrow>
     e = EncodingLengthError
     \<and> byteLength (Buffer_from_hex (cur @ tag @ bigIntToHexString fee 8 @ bigIntToHexString nce 8)) > 49"
  by (auto simp: makeSigHashPreSign_def Let_def)

section \<open>Signature values and their count\<close>

lemma toString_empty: "toString MessageSignature_empty = Some (zeros 130)"
  by code_simp

lemma toString_eq_iff: "toString x = toString y \<longleftrightarrow> x = y"
  by (cases x; cases y) simp

text \<open>
  C10. The claim: the constructor throws if and only if an argument is supplied whose
  decoded length differs from 65 bytes. The source guards the check by the truthiness of
  the argument, and the empty string is falsy: for the argument \<^verbatim>\<open>''\<close>, whose decoded
  length is 0, the constructor does not throw and stores the empty string as the
  signature.
\<close>

theorem MessageSignature_new_empty_string:
  "MessageSignature_new (Some '''') = Inr (MessageSignature (Some ''''))
   \<and> byteLength (Buffer_from_hex '''') \<noteq> RECOVERABLE_ECDSA_SIG_LENGTH_BYTES"
  by (simp add: MessageSignature_new_def truthy_def byteLength_def RECOVERABLE_ECDSA_SIG_LENGTH_BYTES_def)

text \<open>
  The constructor case by case, as the source has it: it throws, and then its
  invalid-signature error, exactly on a non-empty string whose decoded length differs from
  65 bytes; otherwise it stores its argument. Without an argument the field is
  \<^verbatim>\<open>undefined\<close>, which is not the sentinel that \<^verbatim>\<open>MessageSignature.empty()\<close> holds,
  the hex string of 65 zero bytes.
\<close>

lemma MessageSignature_new_cases:
  "(MessageSignature_new arg = Inl e \<longleftrightarrow>
      e = InvalidSignatureLength
      \<and> (\<exists>s. arg = Some s \<and> s \<noteq> [] \<and> byteLength (Buffer_from_hex s) \<noteq> 65))
   \<and> (MessageSignature_new arg = Inr m \<longleftrightarrow>
      m = MessageSignature arg
      \<and> (arg = None \<or> arg = Some [] \<or> (\<exists>s. arg = Some s \<and> byteLength (Buffer_from_hex s) = 65)))
   \<and> MessageSignature_new None = Inr (MessageSignature None)
   \<and> MessageSignature None \<noteq> MessageSignature_empty
   \<and> toString MessageSignature_empty = Some (zeros 130)
   \<and> Buffer_from_hex (zeros 130) = replicate 65 0"
proof -
  have a: "(MessageSignature_new arg = Inl e \<longleftrightarrow>
      e = InvalidSignatureLength
      \<and> (\<exists>s. arg = Some s \<and> s \<noteq> [] \<and> byteLength (Buffer_from_hex s) \<noteq> 65))"
    by (cases arg) (auto simp: MessageSignature_new_def truthy_def Let_def RECOVERABLE_ECDSA_SIG_LENGTH_BYTES_def)
  have b: "(MessageSignature_new arg = Inr m \<longleftrightarrow>
      m = MessageSignature arg
      \<and> (arg = None \<or> arg = Some [] \<or> (\<exists>s. arg = Some s \<and> byteLength (Buffer_from_hex s) = 65)))"
    by (cases arg) (auto simp: MessageSignature_new_def truthy_def Let_def byteLength_def RECOVERABLE_ECDSA_SIG_LENGTH_BYTES_def)
  have c: "MessageSignature_new None = Inr (MessageSignature None)"
    by (simp add: MessageSignature_new_def truthy_def)
  have d: "MessageSignature None \<noteq> MessageSignature_empty"
    by (simp add: MessageSignature_empty_def)
  have f: "Buffer_from_hex (zeros 130) = replicate 65 0"
    by code_simp
  show ?thesis using a b c d toString_empty f by blast
qed

text \<open>
  C7. A new \<^verbatim>\<open>SingleSigSpendingCondition\<close> requires 1 signature and counts 0. For every
  object of that class, whatever was done to it, \<open>numSignatures\<close> is 0 when the signature
  slot equals the sentinel and 1 when it differs; the sentinel is the hex string of 65 zero
  bytes.
\<close>

theorem SingleSig_numSignatures:
  "signaturesRequired (SingleSigSpendingCondition_new X mode pubKey n f) = Some 1
   \<and> numSignatures (SingleSigSpendingCondition_new X mode pubKey n f) = 0
   \<and> (cls c = SingleSig \<longrightarrow>
        numSignatures c = (if signature c = MessageSignature_empty then 0 else 1))
   \<and> toString MessageSignature_empty = Some (zeros 130)
   \<and> Buffer_from_hex (zeros 130) = replicate 65 0"
proof -
  have a: "signaturesRequired (SingleSigSpendingCondition_new X mode pubKey n f) = Some 1"
    by (simp add: SingleSigSpendingCondition_new_def)
  have b: "numSignatures (SingleSigSpendingCondition_new X mode pubKey n f) = 0"
    by (simp add: SingleSigSpendingCondition_new_def SpendingCondition_new_def numSignatures_def)
  have c: "cls c = SingleSig \<longrightarrow>
        numSignatures c = (if signature c = MessageSignature_empty then 0 else 1)"
    by (simp add: numSignatures_def toString_eq_iff)
  have d: "Buffer_from_hex (zeros 130) = replicate 65 0" by code_simp
  show ?thesis using a b c d toString_empty by blast
qed

text \<open>
  C7 at concrete values: the condition \<open>condition0\<close> as constructed counts 0, and with the
  signature of \<open>key0\<close> in its slot it counts 1.
\<close>

theorem SingleSig_numSignatures_witness:
  "cls signed_condition0 = SingleSig
   \<and> signature signed_condition0 \<noteq> MessageSignature_empty
   \<and> numSignatures signed_condition0 = 1
   \<and> cls condition0 = SingleSig
   \<and> signature condition0 = MessageSignature_empty
   \<and> numSignatures condition0 = 0"
proof -
  have h: "cls signed_condition0 = SingleSig" by code_simp
  have n: "signature signed_condition0 \<noteq> MessageSignature_empty" by code_simp
  have h0: "cls condition0 = SingleSig" by code_simp
  have n0: "signature condition0 = MessageSignature_empty" by code_simp
  from SingleSig_numSignatures [of X0 None None None None signed_condition0] h n
  have 1: "numSignatures signed_condition0 = 1" by simp
  from SingleSig_numSignatures [of X0 None None None None condition0] h0 n0
  have 2: "numSignatures condition0 = 0" by simp
  show ?thesis using h n h0 n0 1 2 by blast
qed

section \<open>The wire codec\<close>

lemma SpendingCondition_new_no_args:
  "SpendingCondition_new X None None None None =
     \<lparr>cls = Base, addressHashMode = None, signerAddress = None, nonce = None, feeRate = None,
      pubKeyEncoding = None, signature = MessageSignature_empty, signaturesRequired = None\<rparr>"
  by (simp add: SpendingCondition_new_def truthy_def)

text \<open>
  Decoding, with the reads written as slices of the buffer: the mode byte, 20 bytes of
  address, 8 of nonce and 8 of fee rate are read first; only then is the mode looked at.
\<close>

lemma SpendingCondition_deserialize_unfold:
  "SpendingCondition_deserialize X (BufferReader_new b) =
     (case hexStringToBigInt (Buffer_toString_hex (take 8 (drop 21 b))) of Inl e \<Rightarrow> Inl e | Inr n \<Rightarrow>
      case hexStringToBigInt (Buffer_toString_hex (take 8 (drop 29 b))) of Inl e \<Rightarrow> Inl e | Inr f \<Rightarrow>
        if Buffer_toString_hex (take 1 b) = SerializeP2PKH \<or> Buffer_toString_hex (take 1 b) = SerializeP2WPKH
        then Inr (\<lparr>cls = Base,
                   addressHashMode = Some (Buffer_toString_hex (take 1 b)),
                   signerAddress = Some \<lparr>version = 0, data = Buffer_toString_hex (take 20 (drop 1 b))\<rparr>,
                   nonce = Some n, feeRate = Some f,
                   pubKeyEncoding = Some (Buffer_toString_hex (take 1 (drop 37 b))),
                   signature = MessageSignature (Some (Buffer_toString_hex (take 65 (drop 38 b)))),
                   signaturesRequired = None\<rparr>,
                  \<lparr>buffer = b, index = 103\<rparr>)
        else Inr (\<lparr>cls = Base,
                   addressHashMode = Some (Buffer_toString_hex (take 1 b)),
                   signerAddress = Some \<lparr>version = 0, data = Buffer_toString_hex (take 20 (drop 1 b))\<rparr>,
                   nonce = Some n, feeRate = Some f,
                   pubKeyEncoding = None,
                   signature = MessageSignature_empty,
                   signaturesRequired = None\<rparr>,
                  \<lparr>buffer = b, index = 37\<rparr>))"
  by (simp add: SpendingCondition_deserialize_def SpendingCondition_new_no_args BufferReader_new_def
      BufferReader_read_def MessageSignature_deserialize_def Address_fromData_def
      RECOVERABLE_ECDSA_SIG_LENGTH_BYTES_def Let_def split: sum.splits)

lemma hexnat_isHex: "isHex s \<Longrightarrow> \<exists>n. hexnat acc s = Some n"
  by (induction s arbitrary: acc) (auto simp: isHex_def)

lemma hexStringToBigInt_toString_hex:
  "bs \<noteq> [] \<Longrightarrow> \<exists>n. hexStringToBigInt (Buffer_toString_hex bs) = Inr n"
proof -
  assume "bs \<noteq> []"
  then have "Buffer_toString_hex bs \<noteq> []" by (cases bs) simp_all
  moreover obtain n where "hexnat 0 (Buffer_toString_hex bs) = Some n"
    using hexnat_isHex [OF lowerHex_isHex [OF lowerHex_Buffer_toString_hex]] by blast
  ultimately show ?thesis by (simp add: hexStringToBigInt_def)
qed

lemma hexnat_append:
  "hexnat acc (xs @ ys) = (case hexnat acc xs of None \<Rightarrow> None | Some a \<Rightarrow> hexnat a ys)"
  by (induction xs arbitrary: acc) (simp_all split: option.splits)

lemma hexnat_hex_fixed: "hexnat acc (hex_fixed k n) = Some (acc * 16 ^ k + n mod 16 ^ k)"
proof (induction k arbitrary: n)
  case 0
  show ?case by simp
next
  case (Suc k)
  have h: "hexval (hexchar (n mod 16)) = Some (n mod 16)" by (rule hexval_hexchar) simp
  have m: "n mod (16 * 16 ^ k) = 16 * (n div 16 mod 16 ^ k) + n mod 16"
    by (rule mod_mult2_eq)
  show ?case
    by (simp add: hexnat_append Suc.IH h m algebra_simps)
qed

text \<open>Reading back the 8 bytes of a 64-bit number gives the number.\<close>

lemma hexStringToBigInt_u64_be:
  "n < 2 ^ 64 \<Longrightarrow> hexStringToBigInt (Buffer_toString_hex (u64_be n)) = Inr n"
proof -
  assume n: "n < 2 ^ 64"
  have "Buffer_toString_hex (u64_be n) = hex_fixed 16 n"
    using Buffer_toString_hex_be_bytes [of 8 n] by (simp add: u64_be_be_bytes)
  moreover have "hexnat 0 (hex_fixed 16 n) = Some n"
    using n by (simp add: hexnat_hex_fixed)
  moreover have "hex_fixed 16 n \<noteq> []"
    using length_hex_fixed [of 16 n] by (metis length_0_conv zero_neq_numeral)
  ultimately show ?thesis by (simp add: hexStringToBigInt_def)
qed

lemma SpendingCondition_serialize_script:
  assumes "addressHashMode c = Some mode" "mode = SerializeP2SH \<or> mode = SerializeP2WSH"
    and "signerAddress c = Some a" "nonce c = Some n" "feeRate c = Some f"
  shows "SpendingCondition_serialize c =
           Inr (Buffer_from_hex mode @ Buffer_from_hex (data a)
                @ Buffer_from_hex (bigIntToHexString n 8) @ Buffer_from_hex (bigIntToHexString f 8))"
proof -
  have "mode \<noteq> SerializeP2PKH \<and> mode \<noteq> SerializeP2WPKH"
    using assms(2) by (auto simp: SerializeP2SH_def SerializeP2WSH_def SerializeP2PKH_def SerializeP2WPKH_def)
  then show ?thesis using assms(1,3,4,5)
    by (simp add: SpendingCondition_serialize_def appendHexString_def concatBuffer_def Let_def)
qed

lemma SpendingCondition_serialize_single:
  assumes "addressHashMode c = Some mode" "mode = SerializeP2PKH \<or> mode = SerializeP2WPKH"
    and "signerAddress c = Some a" "nonce c = Some n" "feeRate c = Some f"
    and "pubKeyEncoding c = Some e" "signature c = MessageSignature (Some s)"
  shows "SpendingCondition_serialize c =
           Inr (Buffer_from_hex mode @ Buffer_from_hex (data a)
                @ Buffer_from_hex (bigIntToHexString n 8) @ Buffer_from_hex (bigIntToHexString f 8)
                @ Buffer_from_hex e @ Buffer_from_hex s)"
  using assms
  by (simp add: SpendingCondition_serialize_def MessageSignature_serialize_def appendHexString_def
      push_def concatBuffer_def Let_def)

text \<open>The serializers throw nothing but the runtime's \<open>TypeError\<close> for an unset field.\<close>

lemma SpendingCondition_serialize_errors:
  "SpendingCondition_serialize c = Inl e \<Longrightarrow> e = TypeError"
  by (auto simp: SpendingCondition_serialize_def MessageSignature_serialize_def Let_def
      split: option.splits sum.splits if_splits)

lemma Authorization_serialize_errors:
  "Authorization_serialize a = Inl e \<Longrightarrow> e = TypeError"
  by (auto simp: Authorization_serialize_def Let_def
      split: option.splits sum.splits if_splits dest: SpendingCondition_serialize_errors)

text \<open>
  C3, as claimed for all four modes: decoding what \<open>serialize\<close> wrote gives the condition
  back field for field. For the script mode P2SH the encoding is the 37 bytes of the four
  fixed fields, and decoding them yields a condition whose signature is the empty sentinel
  and whose key encoding is unset, where \<open>script_condition0\<close> has a signature and a key
  encoding.
\<close>

theorem roundtrip_script_mode_counterexample:
  "SpendingCondition_serialize script_condition0
       = Inr ([1] @ replicate 20 0 @ replicate 8 0 @ (replicate 7 0 @ [180]))
   \<and> SpendingCondition_deserialize X0
        (BufferReader_new ([1] @ replicate 20 0 @ replicate 8 0 @ (replicate 7 0 @ [180])))
       = Inr (script_condition0\<lparr>cls := Base, pubKeyEncoding := None,
                signature := MessageSignature_empty, signaturesRequired := None\<rparr>,
              \<lparr>buffer = [1] @ replicate 20 0 @ replicate 8 0 @ (replicate 7 0 @ [180]), index = 37\<rparr>)
   \<and> signature script_condition0 \<noteq> MessageSignature_empty
   \<and> pubKeyEncoding script_condition0 \<noteq> None"
  by code_simp

text \<open>
  C3, amended to the two single-signature modes (P2PKH, P2WPKH). For a condition of such a
  mode whose fields are set and in the form the code itself produces (a 20-byte address of
  version 0, nonce and fee rate below \<open>2 ^ 64\<close>, a one-byte key encoding and a 65-byte
  signature, all lower-case hex), \<open>serialize\<close> writes 103 bytes and decoding them reads all
  103 and gives back a condition equal in address hash mode, signer address, nonce, fee
  rate, key encoding and signature. The decoded object is of the base class, with no
  \<open>signaturesRequired\<close>.
\<close>

theorem roundtrip_single_sig:
  assumes "addressHashMode c = Some mode" and "mode = SerializeP2PKH \<or> mode = SerializeP2WPKH"
    and "signerAddress c = Some a" and "version a = 0" and "lowerHex (data a)" and "length (data a) = 40"
    and "nonce c = Some n" and "n < 2 ^ 64" and "feeRate c = Some f" and "f < 2 ^ 64"
    and "pubKeyEncoding c = Some e" and "lowerHex e" and "length e = 2"
    and "signature c = MessageSignature (Some s)" and "lowerHex s" and "length s = 130"
  shows "\<exists>b c' r. SpendingCondition_serialize c = Inr b \<and> length b = 103
           \<and> SpendingCondition_deserialize X (BufferReader_new b) = Inr (c', r)
           \<and> addressHashMode c' = addressHashMode c
           \<and> signerAddress c' = signerAddress c
           \<and> nonce c' = nonce c
           \<and> feeRate c' = feeRate c
           \<and> pubKeyEncoding c' = pubKeyEncoding c
           \<and> signature c' = signature c
           \<and> c' = c\<lparr>cls := Base, signaturesRequired := None\<rparr>
           \<and> r = \<lparr>buffer = b, index = 103\<rparr>"
proof -
  let ?M = "Buffer_from_hex mode" and ?A = "Buffer_from_hex (data a)"
  let ?E = "Buffer_from_hex e" and ?S = "Buffer_from_hex s"
  let ?b = "?M @ ?A @ u64_be n @ u64_be f @ ?E @ ?S"
  have lm: "lowerHex mode" "length mode = 2"
    using assms(2) by (auto simp: SerializeP2PKH_def SerializeP2WPKH_def lowerHex_def hexDigits_def)
  have len: "length ?M = 1" "length ?A = 20" "length ?E = 1" "length ?S = 65"
    using lm assms(5,6,12,13,15,16) by (simp_all add: length_Buffer_from_hex lowerHex_isHex)
  have rt: "Buffer_toString_hex ?M = mode" "Buffer_toString_hex ?A = data a"
    "Buffer_toString_hex ?E = e" "Buffer_toString_hex ?S = s"
    using lm assms(5,6,12,13,15,16) by (simp_all add: Buffer_toString_from_hex)
  have ser: "SpendingCondition_serialize c = Inr ?b"
    using SpendingCondition_serialize_single [OF assms(1,2,3,7,9,11,14)] assms(8,10)
    by (simp add: Buffer_from_hex_bigInt)
  have lb: "length ?b = 103" using len by simp
  have t1: "take 1 ?b = ?M" using len by simp
  have t2: "take 20 (drop 1 ?b) = ?A" using len by simp
  have t3: "take 8 (drop 21 ?b) = u64_be n" using len by simp
  have t4: "take 8 (drop 29 ?b) = u64_be f" using len by simp
  have t5: "take 1 (drop 37 ?b) = ?E" using len by simp
  have t6: "take 65 (drop 38 ?b) = ?S" using len by simp
  have a: "\<lparr>version = 0, data = data a\<rparr> = a" using assms(4) by (cases a) simp
  have c: "\<lparr>cls = Base, addressHashMode = Some mode, signerAddress = Some a, nonce = Some n,
            feeRate = Some f, pubKeyEncoding = Some e, signature = MessageSignature (Some s),
            signaturesRequired = None\<rparr> = c\<lparr>cls := Base, signaturesRequired := None\<rparr>"
    using assms(1,3,7,9,11,14) by (cases c) simp
  have des: "SpendingCondition_deserialize X (BufferReader_new ?b)
        = Inr (c\<lparr>cls := Base, signaturesRequired := None\<rparr>, \<lparr>buffer = ?b, index = 103\<rparr>)"
    unfolding SpendingCondition_deserialize_unfold t1 t2 t3 t4 t5 t6 rt
      hexStringToBigInt_u64_be [OF assms(8)] hexStringToBigInt_u64_be [OF assms(10)] a
    using assms(2) c by simp
  show ?thesis using ser lb des assms by simp
qed

text \<open>C3, amended, at the signed single-signature condition \<open>signed_condition0\<close>.\<close>

theorem roundtrip_single_sig_witness:
  "(addressHashMode signed_condition0 = Some SerializeP2PKH
     \<and> signerAddress signed_condition0 = Some \<lparr>version = 0, data = zeros 40\<rparr>
     \<and> lowerHex (zeros 40) \<and> length (zeros 40) = 40
     \<and> nonce signed_condition0 = Some 0 \<and> (0::nat) < 2 ^ 64
     \<and> feeRate signed_condition0 = Some 180 \<and> (180::nat) < 2 ^ 64
     \<and> pubKeyEncoding signed_condition0 = Some Compressed \<and> lowerHex Compressed \<and> length Compressed = 2
     \<and> signature signed_condition0 = MessageSignature (Some (''01'' @ zeros 128))
     \<and> lowerHex (''01'' @ zeros 128) \<and> length (''01'' @ zeros 128) = 130)
   \<and> (\<exists>b c' r. SpendingCondition_serialize signed_condition0 = Inr b \<and> length b = 103
           \<and> SpendingCondition_deserialize X0 (BufferReader_new b) = Inr (c', r)
           \<and> addressHashMode c' = addressHashMode signed_condition0
           \<and> signerAddress c' = signerAddress signed_condition0
           \<and> nonce c' = nonce signed_condition0
           \<and> feeRate c' = feeRate signed_condition0
           \<and> pubKeyEncoding c' = pubKeyEncoding signed_condition0
           \<and> signature c' = signature signed_condition0
           \<and> c' = signed_condition0\<lparr>cls := Base, signaturesRequired := None\<rparr>
           \<and> r = \<lparr>buffer = b, index = 103\<rparr>)"
proof -
  have h1: "addressHashMode signed_condition0 = Some SerializeP2PKH" by code_simp
  have h2: "SerializeP2PKH = SerializeP2PKH \<or> SerializeP2PKH = SerializeP2WPKH" by simp
  have h3: "signerAddress signed_condition0 = Some \<lparr>version = 0, data = zeros 40\<rparr>" by code_simp
  have h4: "version \<lparr>version = 0, data = zeros 40\<rparr> = 0" by simp
  have h5: "lowerHex (data \<lparr>version = 0, data = zeros 40\<rparr>)" by code_simp
  have h6: "length (data \<lparr>version = 0, data = zeros 40\<rparr>) = 40" by (simp add: zeros_def)
  have h7: "nonce signed_condition0 = Some 0" by code_simp
  have h8: "(0::nat) < 2 ^ 64" by simp
  have h9: "feeRate signed_condition0 = Some 180" by code_simp
  have h10: "(180::nat) < 2 ^ 64" by simp
  have h11: "pubKeyEncoding signed_condition0 = Some Compressed" by code_simp
  have h12: "lowerHex Compressed" by code_simp
  have h13: "length Compressed = 2" by (simp add: Compressed_def)
  have h14: "signature signed_condition0 = MessageSignature (Some (''01'' @ zeros 128))" by code_simp
  have h15: "lowerHex (''01'' @ zeros 128)" by code_simp
  have h16: "length (''01'' @ zeros 128) = 130" by (simp add: zeros_def)
  note t = roundtrip_single_sig [OF h1 h2 h3 h4 h5 h6 h7 h8 h9 h10 h11 h12 h13 h14 h15 h16, of X0]
  have h: "addressHashMode signed_condition0 = Some SerializeP2PKH
     \<and> signerAddress signed_condition0 = Some \<lparr>version = 0, data = zeros 40\<rparr>
     \<and> lowerHex (zeros 40) \<and> length (zeros 40) = 40
     \<and> nonce signed_condition0 = Some 0 \<and> (0::nat) < 2 ^ 64
     \<and> feeRate signed_condition0 = Some 180 \<and> (180::nat) < 2 ^ 64
     \<and> pubKeyEncoding signed_condition0 = Some Compressed \<and> lowerHex Compressed \<and> length Compressed = 2
     \<and> signature signed_condition0 = MessageSignature (Some (''01'' @ zeros 128))
     \<and> lowerHex (''01'' @ zeros 128) \<and> length (''01'' @ zeros 128) = 130"
    using h1 h3 h5 h6 h7 h9 h11 h12 h13 h14 h15 h16 by simp
  show ?thesis by (rule conjI [OF h t])
qed

text \<open>
  C4, as claimed: a first byte that is no address hash mode makes \<open>deserialize\<close> fail with
  \<open>UnknownAddressHashMode\<close> without reading further. On the 37 bytes \<open>ff 00 \<dots> 00\<close> the
  source returns a condition whose mode is \<open>ff\<close> and has read all 37 bytes.
\<close>

theorem deserialize_unknown_mode_counterexample:
  "Buffer_toString_hex (take 1 unknown_mode_buffer) = ''ff''
   \<and> ''ff'' \<noteq> SerializeP2PKH \<and> ''ff'' \<noteq> SerializeP2SH
   \<and> ''ff'' \<noteq> SerializeP2WPKH \<and> ''ff'' \<noteq> SerializeP2WSH
   \<and> SpendingCondition_deserialize X0 (BufferReader_new unknown_mode_buffer)
       = Inr (\<lparr>cls = Base, addressHashMode = Some ''ff'',
               signerAddress = Some \<lparr>version = 0, data = zeros 40\<rparr>,
               nonce = Some 0, feeRate = Some 0, pubKeyEncoding = None,
               signature = MessageSignature_empty, signaturesRequired = None\<rparr>,
              \<lparr>buffer = unknown_mode_buffer, index = 37\<rparr>)
   \<and> SpendingCondition_deserialize X0 (BufferReader_new unknown_mode_buffer) \<noteq> Inl UnknownAddressHashMode"
  by code_simp

text \<open>
  C4, amended. On a buffer of at least 37 bytes whose first byte is none of the four
  address hash modes, \<open>deserialize\<close> raises no error: it reads the 37 bytes of the four
  fixed fields, stores the unrecognized byte as the mode, and reads nothing after them, so
  that the key encoding stays unset and the signature stays the empty sentinel. On no
  buffer at all does it fail with \<open>UnknownAddressHashMode\<close>.
\<close>

theorem deserialize_unknown_mode:
  "(37 \<le> length b
     \<and> Buffer_toString_hex (take 1 b) \<noteq> SerializeP2PKH \<and> Buffer_toString_hex (take 1 b) \<noteq> SerializeP2WPKH
     \<and> Buffer_toString_hex (take 1 b) \<noteq> SerializeP2SH \<and> Buffer_toString_hex (take 1 b) \<noteq> SerializeP2WSH
    \<longrightarrow> (\<exists>c r. SpendingCondition_deserialize X (BufferReader_new b) = Inr (c, r)
            \<and> addressHashMode c = Some (Buffer_toString_hex (take 1 b))
            \<and> index r = 37
            \<and> pubKeyEncoding c = None
            \<and> signature c = MessageSignature_empty))
   \<and> SpendingCondition_deserialize X (BufferReader_new b) \<noteq> Inl UnknownAddressHashMode"
proof -
  have a: "\<exists>c r. SpendingCondition_deserialize X (BufferReader_new b) = Inr (c, r)
            \<and> addressHashMode c = Some (Buffer_toString_hex (take 1 b))
            \<and> index r = 37
            \<and> pubKeyEncoding c = None
            \<and> signature c = MessageSignature_empty"
    if l: "37 \<le> length b"
      and m: "Buffer_toString_hex (take 1 b) \<noteq> SerializeP2PKH" "Buffer_toString_hex (take 1 b) \<noteq> SerializeP2WPKH"
  proof -
    have "take 8 (drop 21 b) \<noteq> []" "take 8 (drop 29 b) \<noteq> []" using l by auto
    then obtain n f where
      "hexStringToBigInt (Buffer_toString_hex (take 8 (drop 21 b))) = Inr n"
      "hexStringToBigInt (Buffer_toString_hex (take 8 (drop 29 b))) = Inr f"
      using hexStringToBigInt_toString_hex by blast
    then show ?thesis using m
      by (simp add: SpendingCondition_deserialize_unfold)
  qed
  have b: "SpendingCondition_deserialize X (BufferReader_new b) \<noteq> Inl UnknownAddressHashMode"
    by (auto simp: SpendingCondition_deserialize_unfold hexStringToBigInt_def split: sum.splits if_splits option.splits)
  show ?thesis using a b by blast
qed

text \<open>C4, amended, at the buffer \<open>ff 00 \<dots> 00\<close>.\<close>

theorem deserialize_unknown_mode_witness:
  "(37 \<le> length unknown_mode_buffer
     \<and> Buffer_toString_hex (take 1 unknown_mode_buffer) \<noteq> SerializeP2PKH
     \<and> Buffer_toString_hex (take 1 unknown_mode_buffer) \<noteq> SerializeP2WPKH
     \<and> Buffer_toString_hex (take 1 unknown_mode_buffer) \<noteq> SerializeP2SH
     \<and> Buffer_toString_hex (take 1 unknown_mode_buffer) \<noteq> SerializeP2WSH)
   \<and> (\<exists>c r. SpendingCondition_deserialize X0 (BufferReader_new unknown_mode_buffer) = Inr (c, r)
            \<and> addressHashMode c = Some (Buffer_toString_hex (take 1 unknown_mode_buffer))
            \<and> index r = 37
            \<and> pubKeyEncoding c = None
            \<and> signature c = MessageSignature_empty)"
proof -
  have h: "37 \<le> length unknown_mode_buffer
     \<and> Buffer_toString_hex (take 1 unknown_mode_buffer) \<noteq> SerializeP2PKH
     \<and> Buffer_toString_hex (take 1 unknown_mode_buffer) \<noteq> SerializeP2WPKH
     \<and> Buffer_toString_hex (take 1 unknown_mode_buffer) \<noteq> SerializeP2SH
     \<and> Buffer_toString_hex (take 1 unknown_mode_buffer) \<noteq> SerializeP2WSH"
    by code_simp
  show ?thesis using deserialize_unknown_mode [of unknown_mode_buffer X0] h by blast
qed

text \<open>
  C5, as claimed: serializing a condition of a script mode, or a sponsored authorization,
  raises \<open>Unimplemented\<close> and returns no truncated encoding. The source returns the 37
  bytes of the fixed fields for the P2SH condition \<open>script_condition0\<close>, without its
  signature, and the single tag byte for a sponsored authorization, without its condition.
\<close>

theorem serialize_unfinished_counterexample:
  "addressHashMode script_condition0 = Some SerializeP2SH
   \<and> SpendingCondition_serialize script_condition0
       = Inr ([1] @ replicate 20 0 @ replicate 8 0 @ (replicate 7 0 @ [180]))
   \<and> SpendingCondition_serialize script_condition0 \<noteq> Inl Unimplemented
   \<and> authType (SponsoredAuthorization_new condition0) = Some Sponsored
   \<and> Authorization_serialize (SponsoredAuthorization_new condition0) = Inr [5]
   \<and> Authorization_serialize (SponsoredAuthorization_new condition0) \<noteq> Inl Unimplemented"
  by code_simp

text \<open>
  C5, amended. The unfinished paths raise nothing: for a condition of mode P2SH or P2WSH
  whose address, nonce and fee rate are set, \<open>serialize\<close> returns the mode byte, the
  address, the nonce and the fee rate and nothing of the signers; for an authorization of
  type \<open>Sponsored\<close> it returns the tag byte alone. Neither serializer ever raises
  \<open>Unimplemented\<close>.
\<close>

theorem serialize_unfinished_paths:
  "(addressHashMode c = Some mode \<and> (mode = SerializeP2SH \<or> mode = SerializeP2WSH)
      \<and> signerAddress c = Some addr \<and> nonce c = Some n \<and> feeRate c = Some f
     \<longrightarrow> SpendingCondition_serialize c =
           Inr (Buffer_from_hex mode @ Buffer_from_hex (data addr)
                @ Buffer_from_hex (bigIntToHexString n 8) @ Buffer_from_hex (bigIntToHexString f 8)))
   \<and> (authType a = Some Sponsored \<longrightarrow> Authorization_serialize a = Inr [5])
   \<and> SpendingCondition_serialize c \<noteq> Inl Unimplemented
   \<and> Authorization_serialize a \<noteq> Inl Unimplemented"
proof -
  have s: "Buffer_from_hex Sponsored = [5]" by code_simp
  have b: "Authorization_serialize a = Inr [5]" if "authType a = Some Sponsored"
    using that s
    by (simp add: Authorization_serialize_def appendHexString_def concatBuffer_def Let_def
        Standard_def Sponsored_def)
  have c: "SpendingCondition_serialize c \<noteq> Inl Unimplemented"
    using SpendingCondition_serialize_errors by fastforce
  have d: "Authorization_serialize a \<noteq> Inl Unimplemented"
    using Authorization_serialize_errors by fastforce
  show ?thesis using SpendingCondition_serialize_script [of c mode addr n f] b c d by blast
qed

text \<open>C5, amended, at \<open>script_condition0\<close> and at a sponsored authorization.\<close>

theorem serialize_unfinished_paths_witness:
  "(addressHashMode script_condition0 = Some SerializeP2SH
      \<and> (SerializeP2SH = SerializeP2SH \<or> SerializeP2SH = SerializeP2WSH)
      \<and> signerAddress script_condition0 = Some \<lparr>version = 0, data = zeros 40\<rparr>
      \<and> nonce script_condition0 = Some 0 \<and> feeRate script_condition0 = Some 180)
   \<and> SpendingCondition_serialize script_condition0 =
           Inr (Buffer_from_hex SerializeP2SH @ Buffer_from_hex (zeros 40)
                @ Buffer_from_hex (bigIntToHexString 0 8) @ Buffer_from_hex (bigIntToHexString 180 8))
   \<and> authType (SponsoredAuthorization_new condition0) = Some Sponsored
   \<and> Authorization_serialize (SponsoredAuthorization_new condition0) = Inr [5]"
proof -
  have h: "addressHashMode script_condition0 = Some SerializeP2SH
      \<and> (SerializeP2SH = SerializeP2SH \<or> SerializeP2SH = SerializeP2WSH)
      \<and> signerAddress script_condition0 = Some \<lparr>version = 0, data = zeros 40\<rparr>
      \<and> nonce script_condition0 = Some 0 \<and> feeRate script_condition0 = Some 180"
    by code_simp
  have g: "authType (SponsoredAuthorization_new condition0) = Some Sponsored"
    by code_simp
  note t = serialize_unfinished_paths [of script_condition0 SerializeP2SH "\<lparr>version = 0, data = zeros 40\<rparr>" 0 180
      "SponsoredAuthorization_new condition0"]
  have 1: "SpendingCondition_serialize script_condition0 =
           Inr (Buffer_from_hex SerializeP2SH @ Buffer_from_hex (zeros 40)
                @ Buffer_from_hex (bigIntToHexString 0 8) @ Buffer_from_hex (bigIntToHexString 180 8))"
    using t h by simp
  have 2: "Authorization_serialize (SponsoredAuthorization_new condition0) = Inr [5]"
    using t g by blast
  show ?thesis using h g 1 2 by blast
qed

section \<open>Properties of the signing session\<close>

lemma signNextOrigin_Inr:
  "signNextOrigin X tx h k = Inr (tx', h') \<Longrightarrow>
     \<exists>c pre. spendingCondition (auth tx) = Some c
       \<and> tx' = tx\<lparr>auth := (auth tx)\<lparr>spendingCondition := Some (c\<lparr>signature := sign k pre\<rparr>)\<rparr>\<rparr>"
  by (auto simp: signNextOrigin_def nextSignature_def Let_def split: option.splits sum.splits)

lemma signNextOrigin_errors:
  "signNextOrigin X tx h k = Inl e \<Longrightarrow> e = TypeError \<or> e = EncodingLengthError"
  by (auto simp: signNextOrigin_def nextSignature_def makeSigHashPreSign_def makeSigHashPostSign_def Let_def
      split: option.splits sum.splits if_splits)

text \<open>
  A successful \<open>signOrigin\<close> passed the overlap guard, leaves the three flags as they were
  and puts what the key signed into the slot of the origin condition.
\<close>

lemma signOrigin_Inr:
  assumes "signOrigin X k s = Inr s'"
  shows "\<not> (checkOverlap s \<and> originDone s)"
    and "originDone s' = originDone s"
    and "checkOversign s' = checkOversign s"
    and "checkOverlap s' = checkOverlap s"
    and "\<exists>c pre. spendingCondition (auth (transaction s)) = Some c
          \<and> spendingCondition (auth (transaction s')) = Some (c\<lparr>signature := sign k pre\<rparr>)"
proof -
  show "\<not> (checkOverlap s \<and> originDone s)"
    using assms by (auto simp: signOrigin_def)
  from assms obtain tx' h' where n: "signNextOrigin X (transaction s) (sigHash s) k = Inr (tx', h')"
    and s': "s' = s\<lparr>transaction := tx', sigHash := h'\<rparr>"
    by (auto simp: signOrigin_def split: if_splits sum.splits bool.splits option.splits)
  show "originDone s' = originDone s" "checkOversign s' = checkOversign s" "checkOverlap s' = checkOverlap s"
    by (simp_all add: s')
  from signNextOrigin_Inr [OF n] show "\<exists>c pre. spendingCondition (auth (transaction s)) = Some c
          \<and> spendingCondition (auth (transaction s')) = Some (c\<lparr>signature := sign k pre\<rparr>)"
    by (auto simp: s')
qed

lemma signOrigin_errors:
  "signOrigin X k s = Inl e \<Longrightarrow>
     e = OverlapError \<or> e = OversignError \<or> e = TypeError \<or> e = EncodingLengthError"
  using signNextOrigin_errors [of X "transaction s" "sigHash s" k e]
  by (auto simp: signOrigin_def split: if_splits sum.splits bool.splits option.splits)


lemma signOrigin_no_overlap: "\<not> originDone s \<Longrightarrow> signOrigin X k s \<noteq> Inl OverlapError"
  by (auto simp: signOrigin_def split: if_splits sum.splits bool.splits option.splits
      dest: signNextOrigin_errors)

lemma call_method_signOrigin: "call_method X ''signOrigin'' k s = signOrigin X k s"
  by (simp add: call_method_def TransactionSigner_method_def)

lemma call_method_other: "name \<noteq> ''signOrigin'' \<Longrightarrow> call_method X name k s = Inl TypeError"
  by (simp add: call_method_def TransactionSigner_method_def)

lemma reachable_originDone: "reachable X s \<Longrightarrow> \<not> originDone s"
proof (induction rule: reachable.induct)
  case (constructed tx)
  show ?case by (simp add: TransactionSigner_new_def)
next
  case (called s name privateKey s')
  then have "signOrigin X privateKey s = Inr s'"
    by (cases "name = ''signOrigin''") (simp_all add: call_method_signOrigin call_method_other)
  from signOrigin_Inr(2) [OF this] called.IH show ?case by simp
qed

text \<open>
  Signing in the new signer of \<open>tx0\<close> with \<open>key0\<close> gives \<open>signed_signer0\<close>: the
  signature is in the slot and the sighash has moved on.
\<close>

lemma signOrigin_tx0: "signOrigin X0 key0 (TransactionSigner_new tx0) = Inr signed_signer0"
  by code_simp





text \<open>
  C8, as claimed: on a sponsored authorization whose origin has not reached its threshold,
  a \<open>signSponsor\<close> call fails with \<open>NotReadyError\<close>. The class has no \<open>signSponsor\<close>:
  on the signer of the unsigned sponsored transaction \<open>sponsored_tx0\<close> the call is a call
  of \<^verbatim>\<open>undefined\<close> and throws the runtime's \<open>TypeError\<close>.
\<close>

theorem signSponsor_counterexample:
  "authType (auth sponsored_tx0) = Some Sponsored
   \<and> spendingCondition (auth sponsored_tx0) = Some condition0
   \<and> numSignatures condition0 = 0
   \<and> signaturesRequired condition0 = Some 1
   \<and> call_method X0 ''signSponsor'' key0 (TransactionSigner_new sponsored_tx0) = Inl TypeError
   \<and> call_method X0 ''signSponsor'' key0 (TransactionSigner_new sponsored_tx0) \<noteq> Inl NotReadyError"
  by code_simp

text \<open>
  C8, amended. The signing session has no sponsor signing: \<open>signOrigin\<close> is the only
  method of the class, a \<open>signSponsor\<close> call fails on every signer, whatever its
  authorization and however many signatures its origin has, with the runtime's
  \<open>TypeError\<close>, and no call on a signer fails with \<open>NotReadyError\<close>.
\<close>

theorem signSponsor_not_provided:
  "TransactionSigner_method X ''signSponsor'' = None
   \<and> call_method X ''signSponsor'' privateKey s = Inl TypeError
   \<and> call_method X name privateKey s \<noteq> Inl NotReadyError
   \<and> (TransactionSigner_method X name = Some m \<longleftrightarrow> name = ''signOrigin'' \<and> m = signOrigin X)"
proof -
  have a: "TransactionSigner_method X ''signSponsor'' = None"
    by (simp add: TransactionSigner_method_def)
  have b: "call_method X ''signSponsor'' privateKey s = Inl TypeError"
    by (simp add: call_method_other)
  have c: "call_method X name privateKey s \<noteq> Inl NotReadyError"
    using signOrigin_errors [of X privateKey s NotReadyError]
    by (cases "name = ''signOrigin''") (auto simp: call_method_signOrigin call_method_other)
  have d: "(TransactionSigner_method X name = Some m \<longleftrightarrow> name = ''signOrigin'' \<and> m = signOrigin X)"
    by (auto simp: TransactionSigner_method_def)
  show ?thesis using a b c d by blast
qed

text \<open>
  C9. \<open>originDone\<close> is false in a new signer, and in every signer reached from a new one
  by calls of the class's methods it is still false; on such a signer neither
  \<open>signOrigin\<close> nor any other call fails with \<open>OverlapError\<close>.
\<close>

theorem originDone_never_set:
  "originDone (TransactionSigner_new tx) = False
   \<and> (reachable X s \<longrightarrow>
        \<not> originDone s
        \<and> signOrigin X privateKey s \<noteq> Inl OverlapError
        \<and> call_method X name privateKey s \<noteq> Inl OverlapError)"
proof -
  have a: "originDone (TransactionSigner_new tx) = False"
    by (simp add: TransactionSigner_new_def)
  have c: "call_method X name privateKey s \<noteq> Inl OverlapError" if "\<not> originDone s"
    using signOrigin_no_overlap [OF that]
    by (cases "name = ''signOrigin''") (simp_all add: call_method_signOrigin call_method_other)
  show ?thesis using a c signOrigin_no_overlap reachable_originDone by blast
qed

text \<open>C9 at the signer reached by one \<open>signOrigin\<close> on the signer of \<open>tx0\<close>.\<close>

theorem originDone_never_set_witness:
  "reachable X0 signed_signer0
   \<and> \<not> originDone signed_signer0
   \<and> signOrigin X0 key0 signed_signer0 \<noteq> Inl OverlapError
   \<and> call_method X0 ''signOrigin'' key0 signed_signer0 \<noteq> Inl OverlapError"
proof -
  have "call_method X0 ''signOrigin'' key0 (TransactionSigner_new tx0) = Inr signed_signer0"
    by (simp only: call_method_signOrigin signOrigin_tx0)
  then have r: "reachable X0 signed_signer0"
    by (rule reachable.called [OF reachable.constructed])
  show ?thesis
    using originDone_never_set [of tx0 X0 signed_signer0 key0 "''signOrigin''"] r
    by blast
qed

end
